theory Spec2Isabelle
  imports Main
begin

section \<open>Python values, strings and paths\<close>

text \<open>
  The attributes of the argparse namespace are untyped: the command line gives
  \<open>None\<close>, a string or a boolean, the session file gives any JSON value, and
  \<open>main\<close> stores a \<open>Path\<close>. The values modelled are the JSON scalars (numbers
  restricted to integers) and paths; arrays and objects occur at the top level of the
  session file only.
\<close>

datatype pyval = PNone | PBool bool | PInt int | PStr string | PPath string

text \<open>Python's truth test, as \<open>not x\<close> and \<open>x or y\<close> use it.\<close>

fun truthy :: "pyval \<Rightarrow> bool" where
  "truthy PNone = False"
| "truthy (PBool b) = b"
| "truthy (PInt i) = (i \<noteq> 0)"
| "truthy (PStr s) = (s \<noteq> [])"
| "truthy (PPath p) = True"

definition digit_char :: "nat \<Rightarrow> char" where
  "digit_char n = char_of (48 + n)"

text \<open>Decimal rendering of a number, as \<open>str\<close>, an f-string and \<open>pgrep\<close> print it.\<close>

fun show_nat :: "nat \<Rightarrow> string" where
  "show_nat n = (if n < 10 then [digit_char n] else show_nat (n div 10) @ [digit_char (n mod 10)])"

declare show_nat.simps [simp del]

definition show_int :: "int \<Rightarrow> string" where
  "show_int i = (if i < 0 then CHR ''-'' # show_nat (nat (- i)) else show_nat (nat i))"

text \<open>\<open>str(x)\<close>.\<close>

fun py_str :: "pyval \<Rightarrow> string" where
  "py_str PNone = ''None''"
| "py_str (PBool b) = (if b then ''True'' else ''False'')"
| "py_str (PInt i) = show_int i"
| "py_str (PStr s) = s"
| "py_str (PPath p) = p"

definition is_digit :: "char \<Rightarrow> bool" where
  "is_digit c = (48 \<le> (of_char c :: nat) \<and> (of_char c :: nat) \<le> 57)"

definition digit_val :: "char \<Rightarrow> nat" where
  "digit_val c = of_char c - 48"

text \<open>
  \<open>int(s)\<close> on a string: the strings it is applied to are made of decimal digits only
  (the output of \<open>pgrep\<close> without its newlines); anything else is a \<open>ValueError\<close>,
  here \<open>None\<close>.
\<close>

definition py_int :: "string \<Rightarrow> int option" where
  "py_int s =
     (if s \<noteq> [] \<and> filter (\<lambda>c. \<not> is_digit c) s = []
      then Some (int (foldl (\<lambda>a c. 10 * a + digit_val c) 0 s))
      else None)"

text \<open>\<open>str.lower\<close>, on ASCII letters.\<close>

definition lower_char :: "char \<Rightarrow> char" where
  "lower_char c =
     (if 65 \<le> (of_char c :: nat) \<and> (of_char c :: nat) \<le> 90
      then char_of ((of_char c :: nat) + 32) else c)"

definition py_lower :: "string \<Rightarrow> string" where
  "py_lower s = map lower_char s"

text \<open>
  \<open>pathlib\<close> on POSIX: \<open>Path(a) / Path(b)\<close> joins the two strings as
  \<open>posixpath.join\<close> does and parses the result into a root and its components,
  dropping empty components and \<open>.\<close>; \<open>str\<close> prints the root and the components
  separated by slashes, or \<open>.\<close> for the empty path.
\<close>

fun split_sep :: "string \<Rightarrow> string list" where
  "split_sep [] = [[]]"
| "split_sep (c # cs) =
     (if c = CHR ''/'' then [] # split_sep cs
      else (case split_sep cs of [] \<Rightarrow> [[c]] | p # ps \<Rightarrow> (c # p) # ps))"

fun join_sep :: "string list \<Rightarrow> string" where
  "join_sep [] = []"
| "join_sep [p] = p"
| "join_sep (p # q # ps) = p @ CHR ''/'' # join_sep (q # ps)"

definition splitroot :: "string \<Rightarrow> string \<times> string" where
  "splitroot p =
     (if take 1 p = ''/''
      then (if take 1 (drop 1 p) = ''/''
            then (if take 1 (drop 2 p) = ''/'' then (''/'', drop 1 p) else (''//'', drop 2 p))
            else (''/'', drop 1 p))
      else ([], p))"

definition posix_join :: "string \<Rightarrow> string \<Rightarrow> string" where
  "posix_join a b =
     (if take 1 b = ''/'' then b
      else if a = [] \<or> last a = CHR ''/'' then a @ b
      else a @ CHR ''/'' # b)"

definition path_str :: "string \<Rightarrow> string" where
  "path_str p =
     (case splitroot p of (root, rel) \<Rightarrow>
        (let parts = filter (\<lambda>x. x \<noteq> [] \<and> x \<noteq> ''.'') (split_sep rel)
         in if root = [] \<and> parts = [] then ''.'' else root @ join_sep parts))"

datatype exn =
    JSONDecodeError | AttributeError | TypeError | ValueError
  | FileNotFoundError | CalledProcessError | ProcessLookupError | PermissionError

text \<open>\<open>Path(x)\<close> accepts a string or a path and raises \<open>TypeError\<close> otherwise.\<close>

fun as_path :: "pyval \<Rightarrow> exn + string" where
  "as_path (PStr s) = Inr s"
| "as_path (PPath p) = Inr p"
| "as_path v = Inl TypeError"

text \<open>\<open>Path(d) / Path(f)\<close>, printed.\<close>

definition path_div :: "pyval \<Rightarrow> pyval \<Rightarrow> exn + string" where
  "path_div d f =
     (case as_path d of Inl e \<Rightarrow> Inl e
      | Inr a \<Rightarrow> (case as_path f of Inl e \<Rightarrow> Inl e
          | Inr b \<Rightarrow> Inr (path_str (posix_join a b))))"

section \<open>Program state and its surroundings\<close>

text \<open>The namespace \<open>args\<close> that \<open>parser.parse_args()\<close> returns.\<close>

record args_t =
  file_name :: pyval
  destination :: pyval
  format :: pyval
  env :: pyval
  input :: pyval

text \<open>
  The session file \<open>_info.json\<close>: absent, present with a content that \<open>json.load\<close>
  rejects, or present with a JSON document. An object is the list of its items in the
  order \<open>dict.items()\<close> yields them.
\<close>

datatype json_doc = JScalar pyval | JArray "pyval list" | JObject "(string \<times> pyval) list"

datatype info_state = NoFile | Garbage | Doc json_doc

record fs_t =
  info :: info_state
  raw_exists :: bool

datatype level = INFO | WARNING | ERROR

text \<open>
  What an invocation does to the outside: a log line, a request to start a program with
  an argument vector (whether or not the program can be started), a \<open>SIGTERM\<close> sent with
  \<open>os.kill\<close>. The text of a caught exception that a log line ends with is left out.
\<close>

datatype event = Log level string | Exec "string list" | Kill int

datatype ffmpeg_outcome = Encoded | NonZeroExit | CannotRun

text \<open>
  The surroundings an invocation reads: the environment file, the process identifiers
  that \<open>pgrep -f parec\<close> matches, whether \<open>parec\<close> starts and with which identifier,
  what \<open>os.kill\<close> raises, how \<open>ffmpeg\<close> ends, whether \<open>notify-send\<close> can be
  started, the clock, the home directory and the directory of the script. Three things
  are taken for granted: \<open>pgrep\<close> can be started, the directory of the script is
  writable, and removing a file that exists succeeds.
\<close>

record world =
  dotenv_values :: "string \<Rightarrow> (string \<times> string option) list"
  parec_pids :: "nat list"
  parec_launch :: "int option"
  os_kill :: "int \<Rightarrow> exn option"
  ffmpeg :: ffmpeg_outcome
  notify_send :: bool
  now :: string
  home :: string
  script_dir :: string

record state =
  args :: args_t
  PID :: pyval
  fs :: fs_t
  trace :: "event list"

definition emit :: "event \<Rightarrow> state \<Rightarrow> state" where
  "emit e s = s\<lparr>trace := trace s @ [e]\<rparr>"

definition RAW_FILE_NAME :: "world \<Rightarrow> string" where
  "RAW_FILE_NAME w = path_str (posix_join (script_dir w) ''_raw_audio.raw'')"

definition INFO_FILE :: "world \<Rightarrow> string" where
  "INFO_FILE w = path_str (posix_join (script_dir w) ''_info.json'')"

section \<open>The operations of \<open>cab.py\<close>\<close>

text \<open>\<open>vars(args).keys()\<close>: the attributes the parser declares.\<close>

definition args_collection :: "string list" where
  "args_collection = [''file_name'', ''destination'', ''format'', ''env'', ''input'']"

text \<open>\<open>setattr(args, k, v)\<close> for a declared attribute \<open>k\<close>.\<close>

definition setattr :: "string \<Rightarrow> pyval \<Rightarrow> args_t \<Rightarrow> args_t" where
  "setattr k v a =
     (if k = ''file_name'' then a\<lparr>file_name := v\<rparr>
      else if k = ''destination'' then a\<lparr>destination := v\<rparr>
      else if k = ''format'' then a\<lparr>format := v\<rparr>
      else if k = ''env'' then a\<lparr>env := v\<rparr>
      else if k = ''input'' then a\<lparr>input := v\<rparr>
      else a)"

definition add_argument :: "string \<Rightarrow> pyval \<Rightarrow> string list \<Rightarrow> state \<Rightarrow> state" where
  "add_argument arg v expected_keys s =
     (let arg' = py_lower arg;
          s1 = (if arg' \<in> set expected_keys then s\<lparr>args := setattr arg' v (args s)\<rparr> else s)
      in if arg' = ''pid'' then s1\<lparr>PID := v\<rparr> else s1)"

definition save_session_info :: "int \<Rightarrow> state \<Rightarrow> state" where
  "save_session_info pid s =
     s\<lparr>fs := (fs s)\<lparr>info := Doc (JObject
        [(''pid'', PInt pid),
         (''file_name'', file_name (args s)),
         (''destination'', PStr (py_str (destination (args s)))),
         (''format'', format (args s))])\<rparr>\<rparr>"

definition load_session_info :: "state \<Rightarrow> exn + json_doc option" where
  "load_session_info s =
     (case info (fs s) of
        NoFile \<Rightarrow> Inr None
      | Garbage \<Rightarrow> Inl JSONDecodeError
      | Doc d \<Rightarrow> Inr (Some d))"

text \<open>The loop \<open>for key, value in items: add_argument(key, value, args_collection)\<close>.\<close>

fun add_arguments :: "(string \<times> pyval) list \<Rightarrow> state \<Rightarrow> state" where
  "add_arguments [] s = s"
| "add_arguments ((k, v) # kvs) s = add_arguments kvs (add_argument k v args_collection s)"

fun doc_truthy :: "json_doc \<Rightarrow> bool" where
  "doc_truthy (JScalar v) = truthy v"
| "doc_truthy (JArray xs) = (xs \<noteq> [])"
| "doc_truthy (JObject kvs) = (kvs \<noteq> [])"

text \<open>
  \<open>(load_session_info() or {}).items()\<close>: a missing file and a falsy document give no
  item; a truthy document that is not an object has no \<open>items\<close>.
\<close>

definition session_items :: "json_doc option \<Rightarrow> exn + (string \<times> pyval) list" where
  "session_items r =
     (case r of
        None \<Rightarrow> Inr []
      | Some d \<Rightarrow>
          (if \<not> doc_truthy d then Inr []
           else (case d of JObject kvs \<Rightarrow> Inr kvs | JScalar v \<Rightarrow> Inl AttributeError
                 | JArray xs \<Rightarrow> Inl AttributeError)))"

fun dotenv_value :: "string option \<Rightarrow> pyval" where
  "dotenv_value None = PNone"
| "dotenv_value (Some v) = PStr v"

definition parse_args :: "world \<Rightarrow> string \<Rightarrow> bool \<Rightarrow> state \<Rightarrow> (exn + unit) \<times> state" where
  "parse_args w name is_env s =
     (if is_env \<and> truthy (env (args s))
      then (Inr (), add_arguments (map (\<lambda>(k, v). (k, dotenv_value v)) (dotenv_values w name)) s)
      else (case load_session_info s of
              Inl e \<Rightarrow> (Inl e, s)
            | Inr r \<Rightarrow>
                (case session_items r of
                   Inl e \<Rightarrow> (Inl e, s)
                 | Inr kvs \<Rightarrow> (Inr (), add_arguments kvs s))))"

text \<open>What \<open>pgrep\<close> prints: one line for each process it matches.\<close>

definition pgrep_stdout :: "nat list \<Rightarrow> string" where
  "pgrep_stdout pids = concat (map (\<lambda>p. show_nat p @ [CHR 0x0A]) pids)"

definition check_process_exists :: "world \<Rightarrow> string" where
  "check_process_exists w = filter (\<lambda>c. c \<noteq> CHR 0x0A) (pgrep_stdout (parec_pids w))"

definition show_notification :: "world \<Rightarrow> string \<Rightarrow> string \<Rightarrow> state \<Rightarrow> (exn + unit) \<times> state" where
  "show_notification w title msg s =
     (let s1 = emit (Exec [''notify-send'', title, msg]) s
      in if notify_send w then (Inr (), s1) else (Inl FileNotFoundError, s1))"

definition ffmpeg_cmd :: "world \<Rightarrow> string \<Rightarrow> string list" where
  "ffmpeg_cmd w file_name' =
     [''ffmpeg'', ''-f'', ''s16le'', ''-ar'', ''48000'', ''-ac'', ''2'', ''-i'',
      RAW_FILE_NAME w, file_name']"

definition convert_audio :: "world \<Rightarrow> pyval \<Rightarrow> state \<Rightarrow> (exn + unit) \<times> state" where
  "convert_audio w file_name' s =
     (case as_path file_name' of
        Inl e \<Rightarrow> (Inl e, s)
      | Inr p \<Rightarrow>
          (let s1 = emit (Exec (ffmpeg_cmd w p)) s
           in case ffmpeg w of
                Encoded \<Rightarrow> (Inr (), s1)
              | NonZeroExit \<Rightarrow> (Inl CalledProcessError, s1)
              | CannotRun \<Rightarrow> (Inl FileNotFoundError, s1)))"

definition parec_cmd :: "string \<Rightarrow> string list" where
  "parec_cmd input_device =
     [''parec'', ''-d'', input_device, ''--format=s16le'', ''--rate=48000'', ''--channels=2'']"

text \<open>
  \<open>open(RAW_FILE_NAME, "wb")\<close> creates or truncates the raw file before \<open>Popen\<close> is
  called; \<open>Popen\<close> raises \<open>TypeError\<close> on an argument that is no string or path and
  \<open>FileNotFoundError\<close> when the program cannot be started.
\<close>

definition start_recording :: "world \<Rightarrow> pyval \<Rightarrow> state \<Rightarrow> (exn + int) \<times> state" where
  "start_recording w input_device s =
     (let s1 = s\<lparr>fs := (fs s)\<lparr>raw_exists := True\<rparr>\<rparr>
      in case as_path input_device of
           Inl e \<Rightarrow> (Inl e, s1)
         | Inr d \<Rightarrow>
             (let s2 = emit (Exec (parec_cmd d)) s1
              in case parec_launch w of
                   None \<Rightarrow> (Inl FileNotFoundError, s2)
                 | Some pid \<Rightarrow>
                     (case show_notification w ''Recording Started'' ''Capturing audio...'' s2 of
                        (Inl e, s3) \<Rightarrow> (Inl e, s3)
                      | (Inr u, s3) \<Rightarrow> (Inr pid, s3))))"

definition stop_recording :: "world \<Rightarrow> int \<Rightarrow> state \<Rightarrow> (exn + unit) \<times> state" where
  "stop_recording w pid s =
     (let s1 = emit (Kill pid) s
      in case os_kill w pid of
           None \<Rightarrow> (Inr (), emit (Log INFO (''Recording stopped (PID '' @ show_int pid @ '')'')) s1)
         | Some e \<Rightarrow>
             (if e = ProcessLookupError
              then (Inr (), emit (Log ERROR (''Process with PID '' @ show_int pid @ '' not found'')) s1)
              else (Inl e, s1)))"

text \<open>
  \<open>os.remove\<close> raises \<open>FileNotFoundError\<close> on a missing file; both calls stand in one
  \<open>try\<close> block whose handler logs a warning.
\<close>

definition clean_session :: "state \<Rightarrow> (exn + unit) \<times> state" where
  "clean_session s =
     (if \<not> raw_exists (fs s) then (Inr (), emit (Log WARNING ''Failed to clean session: '') s)
      else (let s1 = s\<lparr>fs := (fs s)\<lparr>raw_exists := False\<rparr>\<rparr>
            in if info (fs s1) = NoFile
               then (Inr (), emit (Log WARNING ''Failed to clean session: '') s1)
               else (Inr (), s1\<lparr>fs := (fs s1)\<lparr>info := NoFile\<rparr>\<rparr>)))"

definition default_file_name :: "world \<Rightarrow> string" where
  "default_file_name w = ''audio_'' @ now w @ ''.mp3''"

definition start_path :: "world \<Rightarrow> state \<Rightarrow> (exn + unit) \<times> state" where
  "start_path w s1 =
     (let s2 = (if \<not> truthy (file_name (args s1))
                then s1\<lparr>args := (args s1)\<lparr>file_name := PStr (default_file_name w)\<rparr>\<rparr> else s1);
          s3 = (if \<not> truthy (destination (args s2))
                then s2\<lparr>args := (args s2)\<lparr>destination := PPath (home w)\<rparr>\<rparr> else s2)
      in case start_recording w (input (args s3)) s3 of
           (Inl e, s4) \<Rightarrow> (Inl e, s4)
         | (Inr pid_number, s4) \<Rightarrow> (Inr (), save_session_info pid_number s4))"

definition finish_stop :: "world \<Rightarrow> string \<Rightarrow> state \<Rightarrow> (exn + unit) \<times> state" where
  "finish_stop w new_name s3 =
     (case convert_audio w (PPath new_name) s3 of
        (Inl e, s4) \<Rightarrow>
          (if e = CalledProcessError
           then (let s5 = emit (Log ERROR ''Failed to convert audio: '') s4
                 in case show_notification w ''Recording stopped'' ''Failed to convert audio'' s5 of
                      (Inl e', s6) \<Rightarrow> (Inl e', s6)
                    | (Inr u, s6) \<Rightarrow> clean_session s6)
           else (Inl e, s4))
      | (Inr u, s4) \<Rightarrow>
          (case show_notification w ''Recording stopped'' (''Audio saved to '' @ new_name) s4 of
             (Inl e, s5) \<Rightarrow> (Inl e, s5)
           | (Inr u', s5) \<Rightarrow> clean_session s5))"

definition stop_path :: "world \<Rightarrow> string \<Rightarrow> state \<Rightarrow> (exn + unit) \<times> state" where
  "stop_path w pid s1 =
     (case parse_args w (INFO_FILE w) False s1 of
        (Inl e, s2) \<Rightarrow> (Inl e, s2)
      | (Inr u, s2) \<Rightarrow>
          (case py_int pid of
             None \<Rightarrow> (Inl ValueError, s2)
           | Some n \<Rightarrow>
               (case stop_recording w n s2 of
                  (Inl e, s3) \<Rightarrow> (Inl e, s3)
                | (Inr u', s3) \<Rightarrow>
                    (case path_div (destination (args s3)) (file_name (args s3)) of
                       Inl e \<Rightarrow> (Inl e, s3)
                     | Inr new_name \<Rightarrow> finish_stop w new_name s3))))"

text \<open>
  \<open>main\<close>: the configuration pass, the probe, then the branch \<open>if not pid\<close> (here
  \<open>start_path\<close>) or its \<open>else\<close> (here \<open>stop_path\<close>, whose \<open>try\<close> statement and
  what follows it is \<open>finish_stop\<close>). The result is the exception that ends the
  invocation, if any, and the state reached.
\<close>

definition main :: "world \<Rightarrow> state \<Rightarrow> (exn + unit) \<times> state" where
  "main w s =
     (case parse_args w ''.env'' True s of
        (Inl e, s1) \<Rightarrow> (Inl e, s1)
      | (Inr u, s1) \<Rightarrow>
          (let pid = check_process_exists w
           in if pid = [] then start_path w s1 else stop_path w pid s1))"

section \<open>Reading a configuration field\<close>

text \<open>\<open>getattr(args, k)\<close>; \<open>None\<close> stands for an attribute the parser does not declare.\<close>

fun getattr :: "string \<Rightarrow> args_t \<Rightarrow> pyval option" where
  "getattr k a =
     (if k = ''file_name'' then Some (file_name a)
      else if k = ''destination'' then Some (destination a)
      else if k = ''format'' then Some (format a)
      else if k = ''env'' then Some (env a)
      else if k = ''input'' then Some (input a)
      else None)"

text \<open>
  The value that a sequence of items leaves in the attribute \<open>k\<close>: the value of the last
  item whose key is \<open>k\<close> once lower-cased.
\<close>

fun last_value :: "string \<Rightarrow> (string \<times> pyval) list \<Rightarrow> pyval option" where
  "last_value k [] = None"
| "last_value k ((k', v) # kvs) =
     (case last_value k kvs of
        Some v' \<Rightarrow> Some v'
      | None \<Rightarrow> (if py_lower k' = k then Some v else None))"

text \<open>The items of the environment file \<open>.env\<close>, as the overlay loop receives them.\<close>

definition env_items :: "world \<Rightarrow> (string \<times> pyval) list" where
  "env_items w = map (\<lambda>(k, v). (k, dotenv_value v)) (dotenv_values w ''.env'')"

text \<open>
  The namespace after the two defaults of the start path (\<open>if not args.file_name\<close>,
  \<open>if not args.destination\<close>).
\<close>

definition with_defaults :: "world \<Rightarrow> args_t \<Rightarrow> args_t" where
  "with_defaults w a =
     (let a2 = (if \<not> truthy (file_name a) then a\<lparr>file_name := PStr (default_file_name w)\<rparr> else a)
      in if \<not> truthy (destination a2) then a2\<lparr>destination := PPath (home w)\<rparr> else a2)"

section \<open>Concrete invocations\<close>

text \<open>
  A command line without flags, a session record as \<open>save_session_info\<close> writes it,
  and surroundings in which one capture process, 4242, is running and every external
  program works. The environment file sets a file name and a destination.
\<close>

definition cli :: args_t where
  "cli = \<lparr>file_name = PNone, destination = PNone, format = PStr ''mp3'',
           env = PBool False, input = PNone\<rparr>"

definition record_4242 :: json_doc where
  "record_4242 = JObject
     [(''pid'', PInt 4242), (''file_name'', PStr ''b.mp3''),
      (''destination'', PStr ''/home/u''), (''format'', PStr ''mp3'')]"

definition world_4242 :: world where
  "world_4242 =
     \<lparr>dotenv_values = (\<lambda>name. if name = ''.env''
          then [(''FILE_NAME'', Some ''e.mp3''), (''destination'', Some ''/tmp'')] else []),
      parec_pids = [4242], parec_launch = Some 4242, os_kill = (\<lambda>pid. None),
      ffmpeg = Encoded, notify_send = True, now = ''2024-01-01_00-00-00'',
      home = ''/home/u'', script_dir = ''/opt/cab''\<rparr>"

text \<open>
  The record that a start with \<open>--format wav --input mic0\<close> and no file name writes
  (lemma \<open>start_with_format_wav\<close> below).
\<close>

definition record_wav :: json_doc where
  "record_wav = JObject
     [(''pid'', PInt 4242), (''file_name'', PStr ''audio_2024-01-01_00-00-00.mp3''),
      (''destination'', PStr ''/home/u''), (''format'', PStr ''wav'')]"

text \<open>The state an invocation starts in: the parsed command line and what is on disk.\<close>

definition invocation :: "args_t \<Rightarrow> info_state \<Rightarrow> bool \<Rightarrow> state" where
  "invocation a i r = \<lparr>args = a, PID = PNone, fs = \<lparr>info = i, raw_exists = r\<rparr>, trace = []\<rparr>"

section \<open>The probe prints decimal digits\<close>

lemma show_nat_nonempty: "show_nat n \<noteq> []"
  by (subst show_nat.simps) simp

lemma is_digit_digit_char: "n < 10 \<Longrightarrow> is_digit (digit_char n)"
  by (simp add: is_digit_def digit_char_def)

lemma show_nat_digits: "c \<in> set (show_nat n) \<Longrightarrow> is_digit c"
proof (induction n rule: show_nat.induct)
  case (1 n)
  show ?case
  proof (cases "n < 10")
    case True
    then show ?thesis using "1.prems"
      by (subst (asm) show_nat.simps) (simp add: is_digit_digit_char)
  next
    case False
    then show ?thesis using 1
      by (subst (asm) (2) show_nat.simps) (auto simp add: is_digit_digit_char)
  qed
qed

lemma newline_not_digit: "\<not> is_digit (CHR 0x0A)"
  by (simp add: is_digit_def)

lemma show_nat_no_newline: "filter (\<lambda>c. c \<noteq> CHR 0x0A) (show_nat n) = show_nat n"
  using show_nat_digits newline_not_digit by (fastforce simp add: filter_id_conv)

lemma probe_fold:
  "filter (\<lambda>c. c \<noteq> CHR 0x0A) (pgrep_stdout pids) = concat (map show_nat pids)"
  by (induction pids) (simp_all add: pgrep_stdout_def show_nat_no_newline)

lemma probe_digits: "c \<in> set (filter (\<lambda>c. c \<noteq> CHR 0x0A) (pgrep_stdout pids)) \<Longrightarrow> is_digit c"
  unfolding probe_fold using show_nat_digits by auto

lemma probe_nonempty: "pids \<noteq> [] \<Longrightarrow> filter (\<lambda>c. c \<noteq> CHR 0x0A) (pgrep_stdout pids) \<noteq> []"
  unfolding probe_fold by (cases pids) (simp_all add: show_nat_nonempty)

lemma check_process_exists_nonempty: "parec_pids w \<noteq> [] \<Longrightarrow> check_process_exists w \<noteq> []"
  by (simp add: check_process_exists_def probe_nonempty)

lemma check_process_exists_empty: "parec_pids w = [] \<Longrightarrow> check_process_exists w = []"
  by (simp add: check_process_exists_def pgrep_stdout_def)

text \<open>On the stop path \<open>int(pid)\<close> therefore never raises.\<close>

lemma py_int_probe: "parec_pids w \<noteq> [] \<Longrightarrow> \<exists>n. py_int (check_process_exists w) = Some n"
proof -
  assume ne: "parec_pids w \<noteq> []"
  have "\<forall>c \<in> set (check_process_exists w). is_digit c"
    unfolding check_process_exists_def using probe_digits by blast
  then have "filter (\<lambda>c. \<not> is_digit c) (check_process_exists w) = []"
    by (simp add: filter_empty_conv)
  then show ?thesis
    using check_process_exists_nonempty [OF ne] by (simp add: py_int_def)
qed

section \<open>What the overlay loop leaves in the namespace\<close>

lemma getattr_setattr:
  "k \<in> set args_collection \<Longrightarrow> getattr k (setattr k' v a) = (if k' = k then Some v else getattr k a)"
  by (auto simp add: args_collection_def setattr_def)

lemma getattr_add_argument:
  "k \<in> set args_collection \<Longrightarrow>
   getattr k (args (add_argument k' v args_collection s)) =
     (if py_lower k' = k then Some v else getattr k (args s))"
  by (auto simp add: add_argument_def Let_def getattr_setattr simp del: getattr.simps)

lemma getattr_add_arguments:
  "k \<in> set args_collection \<Longrightarrow>
   getattr k (args (add_arguments kvs s)) =
     (case last_value k kvs of Some v \<Rightarrow> Some v | None \<Rightarrow> getattr k (args s))"
proof (induction kvs arbitrary: s)
  case Nil
  then show ?case by simp
next
  case (Cons kv kvs)
  obtain k' v where kv: "kv = (k', v)" by (cases kv)
  show ?case using Cons
    by (simp add: kv getattr_add_argument split: option.splits del: getattr.simps)
qed

lemma add_argument_frame [simp]:
  "fs (add_argument k v ks s) = fs s" "trace (add_argument k v ks s) = trace s"
  by (simp_all add: add_argument_def Let_def)

lemma add_arguments_frame [simp]:
  "fs (add_arguments kvs s) = fs s" "trace (add_arguments kvs s) = trace s"
  by (induction kvs arbitrary: s) auto


section \<open>What each operation leaves untouched\<close>

lemma emit_frame [simp]:
  "args (emit e s) = args s" "fs (emit e s) = fs s" "PID (emit e s) = PID s"
  "trace (emit e s) = trace s @ [e]"
  by (simp_all add: emit_def)

lemma parse_args_frame:
  "parse_args w name b s = (r, s') \<Longrightarrow> fs s' = fs s \<and> trace s' = trace s"
  by (auto simp add: parse_args_def split: if_splits sum.splits)

lemma show_notification_args: "show_notification w t m s = (r, s') \<Longrightarrow> args s' = args s"
  by (auto simp add: show_notification_def Let_def split: if_splits)

lemma clean_session_args: "clean_session s = (r, s') \<Longrightarrow> args s' = args s"
  by (auto simp add: clean_session_def Let_def split: if_splits)

lemma convert_audio_args: "convert_audio w f s = (r, s') \<Longrightarrow> args s' = args s"
  by (auto simp add: convert_audio_def Let_def split: sum.splits ffmpeg_outcome.splits)

lemma stop_recording_args: "stop_recording w n s = (r, s') \<Longrightarrow> args s' = args s"
  by (auto simp add: stop_recording_def Let_def split: option.splits if_splits)

lemma finish_stop_args: "finish_stop w p s = (r, s') \<Longrightarrow> args s' = args s"
  unfolding finish_stop_def Let_def
  by (auto split: prod.splits sum.splits if_splits
      dest!: convert_audio_args show_notification_args clean_session_args)

lemma finish_stop_args_snd: "args (snd (finish_stop w p s)) = args s"
  using finish_stop_args [of w p s] by (cases "finish_stop w p s") simp

lemma stop_path_args:
  "parse_args w (INFO_FILE w) False s1 = (r2, s2) \<Longrightarrow> args (snd (stop_path w pid s1)) = args s2"
  unfolding stop_path_def
  by (auto simp add: finish_stop_args_snd split: prod.splits sum.splits option.splits
      dest!: stop_recording_args)

section \<open>The configuration passes of \<open>main\<close>\<close>

lemma parse_args_record:
  assumes "load_session_info s = Inr r" and "session_items r = Inr kvs"
    and "\<not> (b \<and> truthy (env (args s)))"
  shows "parse_args w name b s = (Inr (), add_arguments kvs s)"
  using assms by (auto simp add: parse_args_def)

lemma parse_args_env:
  "truthy (env (args s)) \<Longrightarrow>
   parse_args w name True s =
     (Inr (), add_arguments (map (\<lambda>(k, v). (k, dotenv_value v)) (dotenv_values w name)) s)"
  by (simp add: parse_args_def)

lemma load_session_info_frame:
  "fs s' = fs s \<Longrightarrow> load_session_info s' = load_session_info s"
  by (simp add: load_session_info_def)

lemma main_stop_args:
  assumes pids: "parec_pids w \<noteq> []"
    and load: "load_session_info s = Inr r" and items: "session_items r = Inr kvs"
    and k: "k \<in> set args_collection"
  shows "getattr k (args (snd (main w s))) =
     (case last_value k kvs of
        Some v \<Rightarrow> Some v
      | None \<Rightarrow>
          (if truthy (env (args s))
           then (case last_value k (env_items w) of Some v \<Rightarrow> Some v | None \<Rightarrow> getattr k (args s))
           else getattr k (args s)))"
proof -
  obtain s1 where p1: "parse_args w ''.env'' True s = (Inr (), s1)"
    and s1: "s1 = (if truthy (env (args s)) then add_arguments (env_items w) s else add_arguments kvs s)"
    using parse_args_record [OF load items, of True w "''.env''"] parse_args_env [of s w "''.env''"]
    by (cases "truthy (env (args s))") (simp_all add: env_items_def)
  have fs1: "fs s1 = fs s" by (simp add: s1)
  have p2: "parse_args w (INFO_FILE w) False s1 = (Inr (), add_arguments kvs s1)"
    using parse_args_record [of s1 r kvs False w "INFO_FILE w"] load items
      load_session_info_frame [OF fs1] by simp
  have "main w s = stop_path w (check_process_exists w) s1"
    using check_process_exists_nonempty [OF pids] by (simp add: main_def p1)
  then have "args (snd (main w s)) = args (add_arguments kvs s1)"
    using stop_path_args [OF p2] by simp
  then show ?thesis
    using k by (simp add: getattr_add_arguments s1 split: option.splits del: getattr.simps)
qed

section \<open>The start path\<close>

lemma start_recording_frame:
  "start_recording w i s = (r, s') \<Longrightarrow> args s' = args s \<and> info (fs s') = info (fs s) \<and> raw_exists (fs s')"
  by (auto simp add: start_recording_def show_notification_def Let_def
      split: sum.splits option.splits if_splits)

lemma start_recording_launch_fails:
  "parec_launch w = None \<Longrightarrow>
   fst (start_recording w i s) = Inl TypeError \<or> fst (start_recording w i s) = Inl FileNotFoundError"
  by (cases i) (simp_all add: start_recording_def Let_def)

lemma save_session_info_args [simp]: "args (save_session_info p s) = args s"
  by (simp add: save_session_info_def)

lemma start_path_args: "args (snd (start_path w s)) = with_defaults w (args s)"
  unfolding start_path_def Let_def with_defaults_def
  by (auto split: prod.splits sum.splits dest!: start_recording_frame)

lemma start_path_launch_fails:
  assumes "parec_launch w = None"
  shows "(fst (start_path w s) = Inl TypeError \<or> fst (start_path w s) = Inl FileNotFoundError) \<and>
     info (fs (snd (start_path w s))) = info (fs s) \<and> raw_exists (fs (snd (start_path w s)))"
proof -
  let ?s3 = "s\<lparr>args := with_defaults w (args s)\<rparr>"
  let ?i = "input (with_defaults w (args s))"
  have sp: "start_path w s =
      (case start_recording w ?i ?s3 of
         (Inl e, s4) \<Rightarrow> (Inl e, s4)
       | (Inr pid_number, s4) \<Rightarrow> (Inr (), save_session_info pid_number s4))"
    by (simp add: start_path_def with_defaults_def Let_def)
  obtain r s4 where sr: "start_recording w ?i ?s3 = (r, s4)"
    by (cases "start_recording w ?i ?s3")
  have r: "r = Inl TypeError \<or> r = Inl FileNotFoundError"
    using start_recording_launch_fails [OF assms, of ?i ?s3] sr by simp
  have fr: "info (fs s4) = info (fs s) \<and> raw_exists (fs s4)"
    using start_recording_frame [OF sr] by simp
  show ?thesis using r fr unfolding sp sr by auto
qed

lemma parse_args_error:
  "parse_args w name b s = (Inl e, s') \<Longrightarrow> s' = s \<and> (e = JSONDecodeError \<or> e = AttributeError)"
  by (auto simp add: parse_args_def load_session_info_def session_items_def
      split: if_splits sum.splits info_state.splits option.splits json_doc.splits)

lemma main_start:
  "parec_pids w = [] \<Longrightarrow> parse_args w ''.env'' True s = (Inr (), s1) \<Longrightarrow>
   main w s = start_path w s1"
  by (simp add: main_def check_process_exists_empty)

lemma main_parse_error:
  "parse_args w ''.env'' True s = (Inl e, s1) \<Longrightarrow> main w s = (Inl e, s1)"
  by (simp add: main_def)

section \<open>Evaluating the concrete invocations\<close>

lemma lower_keys:
  "py_lower ''pid'' = ''pid''" "py_lower ''file_name'' = ''file_name''"
  "py_lower ''destination'' = ''destination''" "py_lower ''format'' = ''format''"
  "py_lower ''FILE_NAME'' = ''file_name''"
  by (simp_all add: py_lower_def lower_char_def char_of_def bit_0)

lemma show_nat_examples:
  "show_nat 4242 = ''4242''" "show_nat 123 = ''123''" "show_nat 456 = ''456''"
  by (simp_all add: show_nat.simps digit_char_def char_of_def bit_0)

lemma py_int_4242: "py_int ''4242'' = Some 4242"
  by (simp add: py_int_def is_digit_def digit_val_def)

lemma path_examples:
  "path_str (posix_join ''/opt/cab'' ''_raw_audio.raw'') = ''/opt/cab/_raw_audio.raw''"
  "path_str (posix_join ''/opt/cab'' ''_info.json'') = ''/opt/cab/_info.json''"
  "path_str (posix_join ''/home/u'' ''b.mp3'') = ''/home/u/b.mp3''"
  "path_str (posix_join ''/tmp'' ''e.mp3'') = ''/tmp/e.mp3''"
  "path_str (posix_join ''/home/u'' ''audio_2024-01-01_00-00-00.mp3'') =
     ''/home/u/audio_2024-01-01_00-00-00.mp3''"
  by (simp_all add: path_str_def posix_join_def splitroot_def)

lemmas run_defs = main_def parse_args_def load_session_info_def session_items_def
  add_argument_def args_collection_def setattr_def Let_def check_process_exists_def probe_fold
  stop_path_def stop_recording_def emit_def show_int_def path_div_def finish_stop_def
  convert_audio_def ffmpeg_cmd_def RAW_FILE_NAME_def INFO_FILE_def show_notification_def
  clean_session_def start_path_def start_recording_def parec_cmd_def save_session_info_def
  default_file_name_def world_4242_def invocation_def cli_def record_4242_def
  lower_keys show_nat_examples py_int_4242 path_examples

lemma last_value_record_4242:
  "last_value ''file_name'' [(''pid'', PInt 4242), (''file_name'', PStr ''b.mp3''),
      (''destination'', PStr ''/home/u''), (''format'', PStr ''mp3'')] = Some (PStr ''b.mp3'')"
  "last_value ''destination'' [(''pid'', PInt 4242), (''file_name'', PStr ''b.mp3''),
      (''destination'', PStr ''/home/u''), (''format'', PStr ''mp3'')] = Some (PStr ''/home/u'')"
  "last_value ''format'' [(''pid'', PInt 4242), (''file_name'', PStr ''b.mp3''),
      (''destination'', PStr ''/home/u''), (''format'', PStr ''mp3'')] = Some (PStr ''mp3'')"
  "last_value ''input'' [(''pid'', PInt 4242), (''file_name'', PStr ''b.mp3''),
      (''destination'', PStr ''/home/u''), (''format'', PStr ''mp3'')] = None"
  by (simp_all add: lower_keys)

section \<open>Configuration precedence on the stop path\<close>

text \<open>
  Claim C1, as stated, fails. With \<open>--file_name a.mp3\<close> on the command line, a persisted
  record whose file name is \<open>b.mp3\<close> and a capture process running, the invocation
  encodes to \<open>/home/u/b.mp3\<close>: the record's value is used, not the command line's.
\<close>

theorem command_line_file_name_not_used:
  "main world_4242 (invocation (cli\<lparr>file_name := PStr ''a.mp3''\<rparr>) (Doc record_4242) True) =
     (Inr (),
      \<lparr>args = \<lparr>file_name = PStr ''b.mp3'', destination = PStr ''/home/u'', format = PStr ''mp3'',
                env = PBool False, input = PNone\<rparr>,
       PID = PInt 4242,
       fs = \<lparr>info = NoFile, raw_exists = False\<rparr>,
       trace = [Kill 4242, Log INFO ''Recording stopped (PID 4242)'',
                Exec [''ffmpeg'', ''-f'', ''s16le'', ''-ar'', ''48000'', ''-ac'', ''2'', ''-i'',
                      ''/opt/cab/_raw_audio.raw'', ''/home/u/b.mp3''],
                Exec [''notify-send'', ''Recording stopped'', ''Audio saved to /home/u/b.mp3'']]\<rparr>)"
  by (simp add: run_defs)

text \<open>
  Claim C1, amended. On the stop path every attribute that the persisted record holds has
  the record's value when the invocation ends, whatever the command line gave; an
  attribute that the record does not hold keeps the value of the command line, or, when
  \<open>--env\<close> is given, the value the environment file sets for it. The stop path computes
  the output path from these attributes (\<open>path_div\<close> in \<open>stop_path\<close>).
\<close>

theorem stop_path_record_overrides_command_line:
  assumes "parec_pids w \<noteq> []" and "info (fs s) = Doc (JObject kvs)"
    and "k \<in> set args_collection"
  shows "getattr k (args (snd (main w s))) =
     (case last_value k kvs of
        Some v \<Rightarrow> Some v
      | None \<Rightarrow>
          (if truthy (env (args s))
           then (case last_value k (env_items w) of Some v \<Rightarrow> Some v | None \<Rightarrow> getattr k (args s))
           else getattr k (args s)))"
proof -
  have load: "load_session_info s = Inr (Some (JObject kvs))"
    using assms(2) by (simp add: load_session_info_def)
  have items: "session_items (Some (JObject kvs)) = Inr kvs"
    by (simp add: session_items_def)
  show ?thesis by (rule main_stop_args [OF assms(1) load items assms(3)])
qed

theorem stop_path_record_overrides_command_line_witness:
  "getattr ''file_name''
     (args (snd (main world_4242
        (invocation (cli\<lparr>file_name := PStr ''a.mp3''\<rparr>) (Doc record_4242) True)))) =
     Some (PStr ''b.mp3'') \<and>
   getattr ''input''
     (args (snd (main world_4242
        (invocation (cli\<lparr>input := PStr ''mic0''\<rparr>) (Doc record_4242) True)))) =
     Some (PStr ''mic0'')"
  using stop_path_record_overrides_command_line [of world_4242 "invocation (cli\<lparr>file_name := PStr ''a.mp3''\<rparr>) (Doc record_4242) True"
      "[(''pid'', PInt 4242), (''file_name'', PStr ''b.mp3''),
        (''destination'', PStr ''/home/u''), (''format'', PStr ''mp3'')]" "''file_name''"]
    stop_path_record_overrides_command_line [of world_4242 "invocation (cli\<lparr>input := PStr ''mic0''\<rparr>) (Doc record_4242) True"
      "[(''pid'', PInt 4242), (''file_name'', PStr ''b.mp3''),
        (''destination'', PStr ''/home/u''), (''format'', PStr ''mp3'')]" "''input''"]
  by (simp add: world_4242_def invocation_def cli_def record_4242_def args_collection_def
      last_value_record_4242 del: last_value.simps)

section \<open>Cleanup after the conversion\<close>

text \<open>
  Claim C2, at a failing input: a capture process is running, the record and the raw
  buffer are on disk, and \<open>ffmpeg\<close> cannot be started, so \<open>subprocess.run\<close> raises
  \<open>FileNotFoundError\<close>. The handler in \<open>main\<close> catches \<open>CalledProcessError\<close> only:
  the invocation ends with the exception, \<open>clean_session\<close> is not called, and the record
  and the raw buffer stay on disk.
\<close>

theorem cleanup_skipped_when_encoder_cannot_run:
  "main (world_4242\<lparr>ffmpeg := CannotRun\<rparr>) (invocation cli (Doc record_4242) True) =
     (Inl FileNotFoundError,
      \<lparr>args = \<lparr>file_name = PStr ''b.mp3'', destination = PStr ''/home/u'', format = PStr ''mp3'',
                env = PBool False, input = PNone\<rparr>,
       PID = PInt 4242,
       fs = \<lparr>info = Doc record_4242, raw_exists = True\<rparr>,
       trace = [Kill 4242, Log INFO ''Recording stopped (PID 4242)'',
                Exec [''ffmpeg'', ''-f'', ''s16le'', ''-ar'', ''48000'', ''-ac'', ''2'', ''-i'',
                      ''/opt/cab/_raw_audio.raw'', ''/home/u/b.mp3'']]\<rparr>)"
  by (simp add: run_defs)

text \<open>The sibling path: when \<open>ffmpeg\<close> runs and exits non-zero, the cleanup is done.\<close>

lemma nonzero_exit_still_cleans:
  "main (world_4242\<lparr>ffmpeg := NonZeroExit\<rparr>) (invocation cli (Doc record_4242) True) =
     (Inr (),
      \<lparr>args = \<lparr>file_name = PStr ''b.mp3'', destination = PStr ''/home/u'', format = PStr ''mp3'',
                env = PBool False, input = PNone\<rparr>,
       PID = PInt 4242,
       fs = \<lparr>info = NoFile, raw_exists = False\<rparr>,
       trace = [Kill 4242, Log INFO ''Recording stopped (PID 4242)'',
                Exec [''ffmpeg'', ''-f'', ''s16le'', ''-ar'', ''48000'', ''-ac'', ''2'', ''-i'',
                      ''/opt/cab/_raw_audio.raw'', ''/home/u/b.mp3''],
                Log ERROR ''Failed to convert audio: '',
                Exec [''notify-send'', ''Recording stopped'', ''Failed to convert audio'']]\<rparr>)"
  by (simp add: run_defs)

section \<open>Clearing the session\<close>

text \<open>
  Claim C3, at a failing input: the record is on disk and the raw buffer is not. Removing
  the raw buffer raises, the handler logs a warning, and the second \<open>os.remove\<close> is never
  reached: \<open>clean_session\<close> returns without an error and leaves the record on disk.
\<close>

theorem clean_session_keeps_record_when_raw_absent:
  "clean_session (invocation a (Doc d) False) =
     (Inr (), emit (Log WARNING ''Failed to clean session: '') (invocation a (Doc d) False))"
  by (simp add: clean_session_def invocation_def)

text \<open>
  What holds of \<open>clean_session\<close> on every state: it raises nothing, a second call leaves
  the files as the first did, and both files are gone when the raw buffer was there.
\<close>

lemma clean_session_no_error: "fst (clean_session s) = Inr ()"
  by (simp add: clean_session_def Let_def)

lemma clean_session_idempotent:
  "fs (snd (clean_session (snd (clean_session s)))) = fs (snd (clean_session s))"
  by (simp add: clean_session_def Let_def)

lemma clean_session_raw_present:
  "raw_exists (fs s) \<Longrightarrow> fs (snd (clean_session s)) = \<lparr>info = NoFile, raw_exists = False\<rparr>"
  by (simp add: clean_session_def Let_def)

section \<open>A record that cannot be parsed\<close>

lemma parse_args_garbage:
  "info (fs s) = Garbage \<Longrightarrow> \<not> (b \<and> truthy (env (args s))) \<Longrightarrow>
   parse_args w name b s = (Inl JSONDecodeError, s)"
  by (auto simp add: parse_args_def load_session_info_def)

lemma main_garbage:
  assumes g: "info (fs s) = Garbage" and pids: "parec_pids w \<noteq> []"
  shows "fst (main w s) = Inl JSONDecodeError \<and> fs (snd (main w s)) = fs s \<and>
     trace (snd (main w s)) = trace s"
proof (cases "truthy (env (args s))")
  case False
  then have "main w s = (Inl JSONDecodeError, s)"
    using parse_args_garbage [OF g, of True w "''.env''"] by (simp add: main_def)
  then show ?thesis by simp
next
  case True
  let ?s1 = "add_arguments (map (\<lambda>(k, v). (k, dotenv_value v)) (dotenv_values w ''.env'')) s"
  have p1: "parse_args w ''.env'' True s = (Inr (), ?s1)"
    by (rule parse_args_env [OF True])
  have g1: "info (fs ?s1) = Garbage" using g by simp
  have p2: "parse_args w (INFO_FILE w) False ?s1 = (Inl JSONDecodeError, ?s1)"
    by (rule parse_args_garbage [OF g1]) simp
  have "main w s = stop_path w (check_process_exists w) ?s1"
    using check_process_exists_nonempty [OF pids] by (simp add: main_def p1)
  then have "main w s = (Inl JSONDecodeError, ?s1)"
    by (simp add: stop_path_def p2)
  then show ?thesis by simp
qed

text \<open>
  Claim C4, as stated, fails. With a capture process running and a session file that
  \<open>json.load\<close> rejects, the invocation ends with \<open>JSONDecodeError\<close> in its first
  configuration pass: nothing is signalled, converted or removed.
\<close>

theorem corrupt_record_aborts_stop_path:
  "main world_4242 (invocation cli Garbage True) =
     (Inl JSONDecodeError, invocation cli Garbage True)"
  by (simp add: main_def parse_args_def load_session_info_def invocation_def cli_def)

text \<open>
  Claim C4, amended. \<open>load_session_info\<close> returns nothing for a missing file and the
  parsed document for a well-formed one; on a file that cannot be parsed it raises
  \<open>JSONDecodeError\<close>, which nothing catches: an invocation that finds a capture process
  running then ends with that exception, the files on disk as they were and no signal,
  program start or log line added.
\<close>

theorem load_session_info_and_corrupt_record:
  "(info (fs s) = NoFile \<longrightarrow> load_session_info s = Inr None) \<and>
   (info (fs s) = Doc d \<longrightarrow> load_session_info s = Inr (Some d)) \<and>
   (info (fs s) = Garbage \<longrightarrow>
      load_session_info s = Inl JSONDecodeError \<and>
      (parec_pids w \<noteq> [] \<longrightarrow>
         fst (main w s) = Inl JSONDecodeError \<and> fs (snd (main w s)) = fs s \<and>
         trace (snd (main w s)) = trace s))"
  using main_garbage [of s w] by (simp add: load_session_info_def)

theorem load_session_info_and_corrupt_record_witness:
  "load_session_info (invocation cli NoFile False) = Inr None \<and>
   load_session_info (invocation cli (Doc record_4242) True) = Inr (Some record_4242) \<and>
   load_session_info (invocation cli Garbage True) = Inl JSONDecodeError \<and>
   fst (main world_4242 (invocation cli Garbage True)) = Inl JSONDecodeError \<and>
   fs (snd (main world_4242 (invocation cli Garbage True))) = \<lparr>info = Garbage, raw_exists = True\<rparr> \<and>
   trace (snd (main world_4242 (invocation cli Garbage True))) = []"
  using load_session_info_and_corrupt_record [of "invocation cli NoFile False" record_4242 world_4242]
    load_session_info_and_corrupt_record [of "invocation cli (Doc record_4242) True" record_4242 world_4242]
    load_session_info_and_corrupt_record [of "invocation cli Garbage True" record_4242 world_4242]
  by (simp add: invocation_def world_4242_def)

section \<open>The environment file\<close>

lemma parse_args_dotenv:
  "\<not> (b \<and> truthy (env (args s))) \<Longrightarrow>
   parse_args (w\<lparr>dotenv_values := d\<rparr>) name b s = parse_args w name b s"
  by (auto simp add: parse_args_def)

lemma show_notification_dotenv:
  "show_notification (w\<lparr>dotenv_values := d\<rparr>) title msg s = show_notification w title msg s"
  by (simp add: show_notification_def)

lemma start_recording_dotenv:
  "start_recording (w\<lparr>dotenv_values := d\<rparr>) i s = start_recording w i s"
  by (simp add: start_recording_def show_notification_dotenv Let_def
      cong: sum.case_cong option.case_cong prod.case_cong ffmpeg_outcome.case_cong if_cong)

lemma start_path_dotenv: "start_path (w\<lparr>dotenv_values := d\<rparr>) s = start_path w s"
  by (simp add: start_path_def start_recording_dotenv default_file_name_def Let_def
      cong: sum.case_cong option.case_cong prod.case_cong ffmpeg_outcome.case_cong if_cong)

lemma stop_recording_dotenv:
  "stop_recording (w\<lparr>dotenv_values := d\<rparr>) n s = stop_recording w n s"
  by (simp add: stop_recording_def)

lemma convert_audio_dotenv:
  "convert_audio (w\<lparr>dotenv_values := d\<rparr>) f s = convert_audio w f s"
  by (simp add: convert_audio_def ffmpeg_cmd_def RAW_FILE_NAME_def Let_def
      cong: sum.case_cong option.case_cong prod.case_cong ffmpeg_outcome.case_cong if_cong)

lemma finish_stop_dotenv: "finish_stop (w\<lparr>dotenv_values := d\<rparr>) p s = finish_stop w p s"
  by (simp add: finish_stop_def convert_audio_dotenv show_notification_dotenv Let_def
      cong: sum.case_cong option.case_cong prod.case_cong ffmpeg_outcome.case_cong if_cong)

lemma stop_path_dotenv: "stop_path (w\<lparr>dotenv_values := d\<rparr>) pid s = stop_path w pid s"
  by (simp add: stop_path_def parse_args_dotenv INFO_FILE_def stop_recording_dotenv
      finish_stop_dotenv Let_def
      cong: sum.case_cong option.case_cong prod.case_cong ffmpeg_outcome.case_cong if_cong)

lemma check_process_exists_dotenv:
  "check_process_exists (w\<lparr>dotenv_values := d\<rparr>) = check_process_exists w"
  by (simp add: check_process_exists_def)

lemma main_dotenv:
  "\<not> truthy (env (args s)) \<Longrightarrow> main (w\<lparr>dotenv_values := d\<rparr>) s = main w s"
  by (simp add: main_def parse_args_dotenv check_process_exists_dotenv start_path_dotenv
      stop_path_dotenv Let_def
      cong: sum.case_cong option.case_cong prod.case_cong ffmpeg_outcome.case_cong if_cong)

text \<open>
  Claim C5, as stated, fails. With \<open>--env\<close>, a capture process running and no session
  record, the file name and the destination of the environment file are used: the
  invocation encodes to \<open>/tmp/e.mp3\<close>.
\<close>

theorem env_file_used_on_stop_path:
  "main world_4242 (invocation (cli\<lparr>env := PBool True\<rparr>) NoFile True) =
     (Inr (),
      \<lparr>args = \<lparr>file_name = PStr ''e.mp3'', destination = PStr ''/tmp'', format = PStr ''mp3'',
                env = PBool True, input = PNone\<rparr>,
       PID = PNone,
       fs = \<lparr>info = NoFile, raw_exists = False\<rparr>,
       trace = [Kill 4242, Log INFO ''Recording stopped (PID 4242)'',
                Exec [''ffmpeg'', ''-f'', ''s16le'', ''-ar'', ''48000'', ''-ac'', ''2'', ''-i'',
                      ''/opt/cab/_raw_audio.raw'', ''/tmp/e.mp3''],
                Exec [''notify-send'', ''Recording stopped'', ''Audio saved to /tmp/e.mp3''],
                Log WARNING ''Failed to clean session: '']\<rparr>)"
  by (simp add: run_defs)

text \<open>
  Claim C5, amended. Without \<open>--env\<close> an invocation does not depend on the environment
  file at all. With \<open>--env\<close> the file is applied before the probe, on the stop path as
  on the start path: on the stop path an attribute that the session record does not hold
  and the environment file sets ends with the environment file's value.
\<close>

theorem env_overlay_needs_flag:
  "(\<not> truthy (env (args s)) \<longrightarrow> main (w\<lparr>dotenv_values := d\<rparr>) s = main w s) \<and>
   (truthy (env (args s)) \<and> parec_pids w \<noteq> [] \<and> load_session_info s = Inr r \<and>
    session_items r = Inr kvs \<and> k \<in> set args_collection \<and> last_value k kvs = None \<and>
    last_value k (env_items w) = Some v \<longrightarrow>
      getattr k (args (snd (main w s))) = Some v)"
proof (intro conjI impI)
  assume "\<not> truthy (env (args s))"
  then show "main (w\<lparr>dotenv_values := d\<rparr>) s = main w s" by (rule main_dotenv)
next
  assume a: "truthy (env (args s)) \<and> parec_pids w \<noteq> [] \<and> load_session_info s = Inr r \<and>
    session_items r = Inr kvs \<and> k \<in> set args_collection \<and> last_value k kvs = None \<and>
    last_value k (env_items w) = Some v"
  then have "getattr k (args (snd (main w s))) =
     (case last_value k kvs of
        Some v \<Rightarrow> Some v
      | None \<Rightarrow>
          (if truthy (env (args s))
           then (case last_value k (env_items w) of Some v \<Rightarrow> Some v | None \<Rightarrow> getattr k (args s))
           else getattr k (args s)))"
    using main_stop_args [of w s r kvs k] by blast
  then show "getattr k (args (snd (main w s))) = Some v" using a by simp
qed

lemma world_4242_pids: "parec_pids world_4242 = [4242]"
  by (simp add: world_4242_def)

lemma last_value_env_4242:
  "last_value ''file_name'' (env_items world_4242) = Some (PStr ''e.mp3'')"
  by (simp add: env_items_def world_4242_def lower_keys)

theorem env_overlay_needs_flag_witness:
  "main (world_4242\<lparr>dotenv_values := (\<lambda>name. [])\<rparr>) (invocation cli (Doc record_4242) True) =
     main world_4242 (invocation cli (Doc record_4242) True) \<and>
   getattr ''file_name''
     (args (snd (main world_4242 (invocation (cli\<lparr>env := PBool True\<rparr>) NoFile True)))) =
     Some (PStr ''e.mp3'')"
proof -
  have a: "main (world_4242\<lparr>dotenv_values := (\<lambda>name. [])\<rparr>) (invocation cli (Doc record_4242) True) =
     main world_4242 (invocation cli (Doc record_4242) True)"
    using env_overlay_needs_flag [where s = "invocation cli (Doc record_4242) True" and w = world_4242
        and d = "\<lambda>name. []"]
    by (simp add: invocation_def cli_def)
  have b: "getattr ''file_name''
     (args (snd (main world_4242 (invocation (cli\<lparr>env := PBool True\<rparr>) NoFile True)))) =
     Some (PStr ''e.mp3'')"
    using env_overlay_needs_flag [where s = "invocation (cli\<lparr>env := PBool True\<rparr>) NoFile True" and w = world_4242
        and r = None and kvs = "[]" and k = "''file_name''" and v = "PStr ''e.mp3''"]
      last_value_env_4242 world_4242_pids
    by (simp add: invocation_def cli_def load_session_info_def session_items_def
        args_collection_def del: getattr.simps)
  show ?thesis by (rule conjI [OF a b])
qed

section \<open>The process probe\<close>

text \<open>
  Claim C6, at a failing input: \<open>pgrep\<close> matches the processes 123 and 456 and prints
  one line for each. \<open>check_process_exists\<close> deletes the newlines and returns
  \<open>123456\<close>, not the first identifier \<open>123\<close>.
\<close>

theorem probe_concatenates_identifiers: "check_process_exists (w\<lparr>parec_pids := [123, 456]\<rparr>) = ''123456''"
  by (simp add: check_process_exists_def probe_fold show_nat_examples)

text \<open>With one match the result is that identifier, with none it is empty.\<close>

lemma check_process_exists_single: "parec_pids w = [p] \<Longrightarrow> check_process_exists w = show_nat p"
  by (simp add: check_process_exists_def probe_fold)

text \<open>With the two matches, \<open>main\<close> sends its signal to the identifier 123456.\<close>

lemma two_matches_signal_concatenation:
  "hd (trace (snd (main (world_4242\<lparr>parec_pids := [123, 456]\<rparr>)
      (invocation cli (Doc record_4242) True)))) = Kill 123456"
  by (simp add: run_defs py_int_def is_digit_def digit_val_def)

section \<open>Stopping a process that is gone\<close>

text \<open>
  Claim C7, as stated, fails. When \<open>os.kill\<close> raises \<open>ProcessLookupError\<close> the line is
  logged with \<open>logger.error\<close>, not as a warning.
\<close>

theorem gone_process_logged_as_error:
  "stop_recording (world_4242\<lparr>os_kill := (\<lambda>pid. Some ProcessLookupError)\<rparr>) 4242
       (invocation cli (Doc record_4242) True) =
     (Inr (),
      \<lparr>args = cli, PID = PNone, fs = \<lparr>info = Doc record_4242, raw_exists = True\<rparr>,
       trace = [Kill 4242, Log ERROR ''Process with PID 4242 not found'']\<rparr>)"
  by (simp add: stop_recording_def emit_def show_int_def show_nat_examples invocation_def)

text \<open>
  Claim C7, amended. \<open>stop_recording\<close> on an identifier whose process is gone logs
  at error level that the process was not found and returns normally: no exception
  reaches its caller.
\<close>

theorem stop_recording_gone_process:
  "os_kill w pid = Some ProcessLookupError \<Longrightarrow>
   stop_recording w pid s =
     (Inr (), emit (Log ERROR (''Process with PID '' @ show_int pid @ '' not found''))
        (emit (Kill pid) s))"
  by (simp add: stop_recording_def)

theorem stop_recording_gone_process_witness:
  "stop_recording (world_4242\<lparr>os_kill := (\<lambda>pid. Some ProcessLookupError)\<rparr>) 4242
       (invocation cli (Doc record_4242) True) =
     (Inr (), emit (Log ERROR (''Process with PID '' @ show_int 4242 @ '' not found''))
        (emit (Kill 4242) (invocation cli (Doc record_4242) True)))"
  using stop_recording_gone_process [of "world_4242\<lparr>os_kill := (\<lambda>pid. Some ProcessLookupError)\<rparr>" 4242
      "invocation cli (Doc record_4242) True"]
  by simp

section \<open>A capture process that does not start\<close>

text \<open>
  Claim C8, as stated, fails. From an empty disk, with no capture process running and
  \<open>parec\<close> missing, the invocation ends with \<open>FileNotFoundError\<close> and writes no
  record, but the raw buffer file that \<open>start_recording\<close> opened before the launch is
  left behind.
\<close>

theorem failed_launch_leaves_raw_buffer:
  "main (world_4242\<lparr>parec_pids := [], parec_launch := None\<rparr>)
       (invocation (cli\<lparr>input := PStr ''mic0''\<rparr>) NoFile False) =
     (Inl FileNotFoundError,
      \<lparr>args = \<lparr>file_name = PStr ''audio_2024-01-01_00-00-00.mp3'', destination = PPath ''/home/u'',
                format = PStr ''mp3'', env = PBool False, input = PStr ''mic0''\<rparr>,
       PID = PNone,
       fs = \<lparr>info = NoFile, raw_exists = True\<rparr>,
       trace = [Exec [''parec'', ''-d'', ''mic0'', ''--format=s16le'', ''--rate=48000'',
                      ''--channels=2'']]\<rparr>)"
  by (simp add: run_defs pgrep_stdout_def)

text \<open>
  Claim C8, amended. When no capture process is running and \<open>parec\<close> cannot be started,
  the invocation ends with an exception and the session file is as it was before (absent
  if it was absent, a stale record if there was one). When the exception comes from the
  launch itself (\<open>TypeError\<close> for a missing input device, \<open>FileNotFoundError\<close> for a
  missing program), the raw buffer file exists afterwards; otherwise it is as before.
\<close>

theorem failed_launch_writes_no_record:
  assumes pids: "parec_pids w = []" and launch: "parec_launch w = None"
  shows "(\<exists>e. fst (main w s) = Inl e) \<and>
     info (fs (snd (main w s))) = info (fs s) \<and>
     (if fst (main w s) = Inl TypeError \<or> fst (main w s) = Inl FileNotFoundError
      then raw_exists (fs (snd (main w s)))
      else raw_exists (fs (snd (main w s))) = raw_exists (fs s))"
proof -
  obtain r s1 where p1: "parse_args w ''.env'' True s = (r, s1)"
    by (cases "parse_args w ''.env'' True s")
  show ?thesis
  proof (cases r)
    case (Inl e)
    then show ?thesis
      using parse_args_error [of w "''.env''" True s e s1] p1
      by (auto simp add: main_parse_error)
  next
    case (Inr u)
    then have m: "main w s = start_path w s1"
      using main_start [OF pids, of s s1] p1 by simp
    have "fs s1 = fs s" using parse_args_frame [OF p1] by simp
    then show ?thesis
      using start_path_launch_fails [OF launch, of s1] by (auto simp add: m)
  qed
qed

theorem failed_launch_writes_no_record_witness:
  "(\<exists>e. fst (main (world_4242\<lparr>parec_pids := [], parec_launch := None\<rparr>)
             (invocation (cli\<lparr>input := PStr ''mic0''\<rparr>) (Doc record_4242) False)) = Inl e) \<and>
   info (fs (snd (main (world_4242\<lparr>parec_pids := [], parec_launch := None\<rparr>)
             (invocation (cli\<lparr>input := PStr ''mic0''\<rparr>) (Doc record_4242) False)))) =
     Doc record_4242"
  using failed_launch_writes_no_record [of "world_4242\<lparr>parec_pids := [], parec_launch := None\<rparr>"
      "invocation (cli\<lparr>input := PStr ''mic0''\<rparr>) (Doc record_4242) False"]
  by (simp add: invocation_def)

section \<open>The command given to the encoder\<close>

text \<open>
  A start with \<open>--format wav --input mic0\<close> and no file name: the default file name
  ends in \<open>.mp3\<close> and the record keeps the format \<open>wav\<close>.
\<close>

lemma start_with_format_wav:
  "main (world_4242\<lparr>parec_pids := []\<rparr>)
       (invocation (cli\<lparr>format := PStr ''wav'', input := PStr ''mic0''\<rparr>) NoFile False) =
     (Inr (),
      \<lparr>args = \<lparr>file_name = PStr ''audio_2024-01-01_00-00-00.mp3'', destination = PPath ''/home/u'',
                format = PStr ''wav'', env = PBool False, input = PStr ''mic0''\<rparr>,
       PID = PNone,
       fs = \<lparr>info = Doc record_wav, raw_exists = True\<rparr>,
       trace = [Exec [''parec'', ''-d'', ''mic0'', ''--format=s16le'', ''--rate=48000'', ''--channels=2''],
                Exec [''notify-send'', ''Recording Started'', ''Capturing audio...'']]\<rparr>)"
  by (simp add: run_defs record_wav_def pgrep_stdout_def)

text \<open>
  Claim C9, at a failing input: the stop that follows that start. The encoder is told to
  read the raw buffer as \<open>s16le\<close>, 48000 Hz, 2 channels, as the claim says, but the
  format \<open>wav\<close> of the record is not part of the command: the output is
  \<open>audio_2024-01-01_00-00-00.mp3\<close> and its encoding is left to the file name.
\<close>

theorem format_not_passed_to_encoder:
  "main world_4242 (invocation cli (Doc record_wav) True) =
     (Inr (),
      \<lparr>args = \<lparr>file_name = PStr ''audio_2024-01-01_00-00-00.mp3'', destination = PStr ''/home/u'',
                format = PStr ''wav'', env = PBool False, input = PNone\<rparr>,
       PID = PInt 4242,
       fs = \<lparr>info = NoFile, raw_exists = False\<rparr>,
       trace = [Kill 4242, Log INFO ''Recording stopped (PID 4242)'',
                Exec [''ffmpeg'', ''-f'', ''s16le'', ''-ar'', ''48000'', ''-ac'', ''2'', ''-i'',
                      ''/opt/cab/_raw_audio.raw'', ''/home/u/audio_2024-01-01_00-00-00.mp3''],
                Exec [''notify-send'', ''Recording stopped'',
                      ''Audio saved to /home/u/audio_2024-01-01_00-00-00.mp3'']]\<rparr>)"
  by (simp add: run_defs record_wav_def)

section \<open>A stale record on the start path\<close>

lemma start_path_saves:
  assumes ok: "fst (start_path w s) = Inr ()"
  shows "\<exists>p. info (fs (snd (start_path w s))) =
     Doc (JObject
       [(''pid'', PInt p),
        (''file_name'', file_name (with_defaults w (args s))),
        (''destination'', PStr (py_str (destination (with_defaults w (args s))))),
        (''format'', format (with_defaults w (args s)))])"
proof -
  let ?s3 = "s\<lparr>args := with_defaults w (args s)\<rparr>"
  let ?i = "input (with_defaults w (args s))"
  have sp: "start_path w s =
      (case start_recording w ?i ?s3 of
         (Inl e, s4) \<Rightarrow> (Inl e, s4)
       | (Inr pid_number, s4) \<Rightarrow> (Inr (), save_session_info pid_number s4))"
    by (simp add: start_path_def with_defaults_def Let_def)
  obtain r s4 where sr: "start_recording w ?i ?s3 = (r, s4)"
    by (cases "start_recording w ?i ?s3")
  have a4: "args s4 = with_defaults w (args s)"
    using start_recording_frame [OF sr] by simp
  show ?thesis
  proof (cases r)
    case (Inl e)
    then show ?thesis using ok unfolding sp sr by simp
  next
    case (Inr p)
    then show ?thesis unfolding sp sr by (simp add: save_session_info_def a4)
  qed
qed

text \<open>
  Claim C10. Without \<open>--env\<close>, with no capture process running and a session record on
  disk, the first configuration pass applies the record: the file name, the destination
  and the format of the record replace those of the command line (a falsy file name or
  destination is then replaced by its default), and when the start succeeds these are the
  values the new record is written with.
\<close>

theorem stale_record_overrides_on_start:
  assumes pids: "parec_pids w = []" and noenv: "\<not> truthy (env (args s))"
    and rec: "info (fs s) = Doc (JObject kvs)"
    and f: "last_value ''file_name'' kvs = Some vf"
    and d: "last_value ''destination'' kvs = Some vd"
    and m: "last_value ''format'' kvs = Some vm"
  shows "file_name (args (snd (main w s))) = (if truthy vf then vf else PStr (default_file_name w)) \<and>
     destination (args (snd (main w s))) = (if truthy vd then vd else PPath (home w)) \<and>
     format (args (snd (main w s))) = vm \<and>
     (fst (main w s) = Inr () \<longrightarrow>
        (\<exists>p. info (fs (snd (main w s))) =
           Doc (JObject
             [(''pid'', PInt p),
              (''file_name'', if truthy vf then vf else PStr (default_file_name w)),
              (''destination'', PStr (py_str (if truthy vd then vd else PPath (home w)))),
              (''format'', vm)])))"
proof -
  have load: "load_session_info s = Inr (Some (JObject kvs))"
    by (simp add: load_session_info_def rec)
  have items: "session_items (Some (JObject kvs)) = Inr kvs"
    by (simp add: session_items_def)
  have p1: "parse_args w ''.env'' True s = (Inr (), add_arguments kvs s)"
    using parse_args_record [OF load items, of True w "''.env''"] noenv by simp
  have main: "main w s = start_path w (add_arguments kvs s)"
    by (rule main_start [OF pids p1])
  have g: "\<And>k. k \<in> set args_collection \<Longrightarrow>
      getattr k (args (add_arguments kvs s)) =
        (case last_value k kvs of Some v \<Rightarrow> Some v | None \<Rightarrow> getattr k (args s))"
    by (rule getattr_add_arguments)
  have "file_name (args (add_arguments kvs s)) = vf"
    using g [of "''file_name''"] f by (simp add: args_collection_def)
  moreover have "destination (args (add_arguments kvs s)) = vd"
    using g [of "''destination''"] d by (simp add: args_collection_def)
  moreover have "format (args (add_arguments kvs s)) = vm"
    using g [of "''format''"] m by (simp add: args_collection_def)
  ultimately have a: "file_name (args (add_arguments kvs s)) = vf \<and>
      destination (args (add_arguments kvs s)) = vd \<and> format (args (add_arguments kvs s)) = vm"
    by simp
  have saved: "fst (main w s) = Inr () \<longrightarrow>
      (\<exists>p. info (fs (snd (main w s))) =
         Doc (JObject
           [(''pid'', PInt p),
            (''file_name'', if truthy vf then vf else PStr (default_file_name w)),
            (''destination'', PStr (py_str (if truthy vd then vd else PPath (home w)))),
            (''format'', vm)]))"
    using start_path_saves [of w "add_arguments kvs s"] a
    by (auto simp add: main with_defaults_def Let_def)
  show ?thesis
    using a saved by (simp add: main start_path_args with_defaults_def Let_def)
qed

theorem stale_record_overrides_on_start_witness:
  "file_name (args (snd (main (world_4242\<lparr>parec_pids := []\<rparr>)
      (invocation (cli\<lparr>file_name := PStr ''a.mp3'', input := PStr ''mic0''\<rparr>)
         (Doc record_4242) True)))) = PStr ''b.mp3'' \<and>
   destination (args (snd (main (world_4242\<lparr>parec_pids := []\<rparr>)
      (invocation (cli\<lparr>file_name := PStr ''a.mp3'', input := PStr ''mic0''\<rparr>)
         (Doc record_4242) True)))) = PStr ''/home/u'' \<and>
   format (args (snd (main (world_4242\<lparr>parec_pids := []\<rparr>)
      (invocation (cli\<lparr>file_name := PStr ''a.mp3'', input := PStr ''mic0''\<rparr>)
         (Doc record_4242) True)))) = PStr ''mp3'' \<and>
   info (fs (snd (main (world_4242\<lparr>parec_pids := []\<rparr>)
      (invocation (cli\<lparr>file_name := PStr ''a.mp3'', input := PStr ''mic0''\<rparr>)
         (Doc record_4242) True)))) = Doc record_4242"
proof -
  let ?w = "world_4242\<lparr>parec_pids := []\<rparr>"
  let ?s = "invocation (cli\<lparr>file_name := PStr ''a.mp3'', input := PStr ''mic0''\<rparr>)
         (Doc record_4242) True"
  have ok: "fst (main ?w ?s) = Inr ()"
    by (simp add: run_defs pgrep_stdout_def)
  have saved: "info (fs (snd (main ?w ?s))) = Doc record_4242"
    by (simp add: run_defs pgrep_stdout_def)
  have "file_name (args (snd (main ?w ?s))) = PStr ''b.mp3'' \<and>
      destination (args (snd (main ?w ?s))) = PStr ''/home/u'' \<and>
      format (args (snd (main ?w ?s))) = PStr ''mp3''"
    using stale_record_overrides_on_start [of ?w ?s
        "[(''pid'', PInt 4242), (''file_name'', PStr ''b.mp3''),
          (''destination'', PStr ''/home/u''), (''format'', PStr ''mp3'')]"
        "PStr ''b.mp3''" "PStr ''/home/u''" "PStr ''mp3''"] ok
    by (simp add: invocation_def cli_def record_4242_def last_value_record_4242
        del: last_value.simps)
  then show ?thesis using saved by simp
qed

end
